theory Spec2Isabelle
  imports Complex_Main
begin

section \<open>Python strings\<close>

text \<open>
  A Python \<open>str\<close> is a sequence of code points. The model is \<^typ>\<open>string\<close>, a list of
  \<^typ>\<open>char\<close>, each read as the code point with that number: the strings covered are
  those over the code points below 256. \<open>of_char\<close> gives the number of a character.
\<close>

definition isspace_chr :: "char \<Rightarrow> bool" where
  \<comment> \<open>\<open>str.isspace\<close> on one character: TAB, LF, VT, FF, CR, FS, GS, RS, US, SPACE, NEL, NBSP.\<close>
  "isspace_chr c = ((of_char c :: nat) \<in> set [9, 10, 11, 12, 13, 28, 29, 30, 31, 32, 133, 160])"

definition isdigit_chr :: "char \<Rightarrow> bool" where
  \<comment> \<open>\<open>str.isdigit\<close> on one character: \<open>0\<close> to \<open>9\<close> and the superscript digits
      two, three (178, 179) and one (185).\<close>
  "isdigit_chr c =
     (let n = (of_char c :: nat) in (48 \<le> n \<and> n \<le> 57) \<or> n = 178 \<or> n = 179 \<or> n = 185)"

definition lstrip :: "string \<Rightarrow> string" where
  "lstrip s = dropWhile isspace_chr s"

definition rstrip :: "string \<Rightarrow> string" where
  "rstrip s = rev (dropWhile isspace_chr (rev s))"

definition strip :: "string \<Rightarrow> string" where
  \<comment> \<open>\<open>s.strip()\<close>: leading and trailing whitespace removed.\<close>
  "strip s = rstrip (lstrip s)"

definition remove_chr :: "char \<Rightarrow> string \<Rightarrow> string" where
  \<comment> \<open>\<open>s.replace(c, "")\<close> for a one-character \<open>c\<close>.\<close>
  "remove_chr c s = filter (\<lambda>x. x \<noteq> c) s"

definition isdigit :: "string \<Rightarrow> bool" where
  \<comment> \<open>\<open>s.isdigit()\<close>: at least one character, and all of them digits.\<close>
  "isdigit s = (s \<noteq> [] \<and> list_all isdigit_chr s)"

section \<open>JSON values\<close>

text \<open>
  What \<open>json.loads\<close> returns: \<open>None\<close>, a bool, an int, a float, a str, a list or a
  dict. A dict is an association list read with \<open>map_of\<close>. A float is the real number
  it stands for; the code never computes with one.
\<close>

datatype json =
    JNull
  | JBool bool
  | JInt int
  | JFloat real
  | JStr string
  | JArr "json list"
  | JObj "(string \<times> json) list"

fun truthy :: "json \<Rightarrow> bool" where
  "truthy JNull = False"
| "truthy (JBool b) = b"
| "truthy (JInt i) = (i \<noteq> 0)"
| "truthy (JFloat r) = (r \<noteq> 0)"
| "truthy (JStr s) = (s \<noteq> [])"
| "truthy (JArr xs) = (xs \<noteq> [])"
| "truthy (JObj kvs) = (kvs \<noteq> [])"

definition dict_get :: "(string \<times> json) list \<Rightarrow> string \<Rightarrow> json" where
  \<comment> \<open>\<open>d.get(k)\<close>: \<open>None\<close> for a missing key.\<close>
  "dict_get d k = (case map_of d k of None \<Rightarrow> JNull | Some v \<Rightarrow> v)"

definition dict_has :: "(string \<times> json) list \<Rightarrow> string \<Rightarrow> bool" where
  \<comment> \<open>\<open>k in d\<close>.\<close>
  "dict_has d k = (map_of d k \<noteq> None)"

definition py_or :: "json \<Rightarrow> json \<Rightarrow> json" where
  \<comment> \<open>\<open>a or b\<close>.\<close>
  "py_or a b = (if truthy a then a else b)"

section \<open>The environment of the resolver\<close>

text \<open>
  \<open>API_KEY\<close> is \<open>os.environ.get("OWM_API_KEY")\<close>. The three functions are library
  code: \<open>urlencode\<close> is \<open>urllib.parse.urlencode\<close> on the items of the dict in order,
  \<open>fetch\<close> is the body of the \<open>try\<close> block, \<open>urlopen\<close> then \<open>json.loads\<close>, giving
  \<open>Inl\<close> of \<open>str(e)\<close> for an exception \<open>e\<close> raised there and \<open>Inr\<close> of the decoded
  value otherwise, and \<open>str_of\<close> is what an f-string prints for a value that is not
  a str.
\<close>

record env =
  API_KEY :: "string option"
  urlencode :: "(string \<times> string) list \<Rightarrow> string"
  fetch :: "string \<Rightarrow> string + json"
  str_of :: "json \<Rightarrow> string"

definition fmt :: "env \<Rightarrow> json \<Rightarrow> string" where
  \<comment> \<open>\<open>f"{v}"\<close>.\<close>
  "fmt e v = (case v of JStr s \<Rightarrow> s | _ \<Rightarrow> str_of e v)"

section \<open>The resolver\<close>

record location =
  label :: json
  lat :: json
  lon :: json
  raw_query :: string

datatype os_error =
  FileExistsError | FileNotFoundError | NotADirectoryError | IsADirectoryError | PermissionError

text \<open>The exceptions of the program; every one of them is an \<open>Exception\<close>.\<close>

datatype py_exn = AttributeError | OSError os_error | CalledProcessError int

type_synonym geocode_result = "location option \<times> string option"

definition is_zip :: "string \<Rightarrow> bool" where
  "is_zip q = isdigit (remove_chr (CHR '' '') (remove_chr (CHR '','') q))"

definition zip_param :: "string \<Rightarrow> string" where
  "zip_param q = (if CHR '','' \<in> set q then q else q @ '',US'')"

definition ZIP_ENDPOINT :: string where
  "ZIP_ENDPOINT = ''https://api.openweathermap.org/geo/1.0/zip?''"

definition DIRECT_ENDPOINT :: string where
  "DIRECT_ENDPOINT = ''https://api.openweathermap.org/geo/1.0/direct?''"

definition request_url :: "env \<Rightarrow> string \<Rightarrow> string \<Rightarrow> string" where
  \<comment> \<open>The URL built for the trimmed query \<open>q\<close> with the credential \<open>key\<close>; the int
      \<open>1\<close> of \<open>limit\<close> is the string \<open>urlencode\<close> makes of it.\<close>
  "request_url e key q =
     (if is_zip q
      then ZIP_ENDPOINT @ urlencode e [(''zip'', zip_param q), (''appid'', key)]
      else DIRECT_ENDPOINT @ urlencode e [(''q'', q), (''limit'', ''1''), (''appid'', key)])"

definition zip_result :: "env \<Rightarrow> string \<Rightarrow> json \<Rightarrow> py_exn + geocode_result" where
  \<comment> \<open>Lines 45 to 50.\<close>
  "zip_result e q data =
     (case data of
        JObj d \<Rightarrow>
          if \<not> dict_has d ''lat'' \<or> \<not> dict_has d ''lon'' then Inr (None, Some ''No result'')
          else
            let name = py_or (dict_get d ''name'') (JStr (''ZIP '' @ q));
                country = dict_get d ''country'';
                lbl = (if truthy country then JStr (fmt e name @ '', '' @ fmt e country) else name)
            in Inr (Some \<lparr>label = lbl, lat = dict_get d ''lat'', lon = dict_get d ''lon'',
                          raw_query = q\<rparr>, None)
      | _ \<Rightarrow> Inr (None, Some ''No result''))"

definition direct_result :: "env \<Rightarrow> string \<Rightarrow> json \<Rightarrow> py_exn + geocode_result" where
  \<comment> \<open>Lines 52 to 68; \<open>first.get\<close> raises an AttributeError when \<open>first\<close> is not a dict.\<close>
  "direct_result e q data =
     (case data of
        JArr [] \<Rightarrow> Inr (None, Some ''No result'')
      | JArr (first # _) \<Rightarrow>
          (case first of
             JObj d \<Rightarrow>
               let name = py_or (dict_get d ''name'') (JStr q);
                   country = dict_get d ''country'';
                   state = dict_get d ''state'';
                   lbl = name;
                   lbl = (if truthy country then JStr (fmt e lbl @ '', '' @ fmt e country) else lbl);
                   lbl = (if truthy state then JStr (fmt e lbl @ '' ('' @ fmt e state @ '')'') else lbl)
               in Inr (Some \<lparr>label = lbl, lat = dict_get d ''lat'', lon = dict_get d ''lon'',
                             raw_query = q\<rparr>, None)
           | _ \<Rightarrow> Inl AttributeError)
      | _ \<Rightarrow> Inr (None, Some ''No result''))"

definition geocode :: "env \<Rightarrow> string \<Rightarrow> (py_exn + geocode_result) \<times> string list" where
  \<comment> \<open>The value returned or the exception raised, and the URLs requested, in order.\<close>
  "geocode e query =
     (case API_KEY e of
        None \<Rightarrow> (Inr (None, Some ''Missing OWM_API_KEY''), [])
      | Some key \<Rightarrow>
          if key = [] then (Inr (None, Some ''Missing OWM_API_KEY''), [])
          else
            let q = strip query in
            if q = [] then (Inr (None, Some ''Enter a ZIP or city''), [])
            else
              let url = request_url e key q in
              (case fetch e url of
                 Inl msg \<Rightarrow> (Inr (None, Some (''Request error: '' @ msg)), [url])
               | Inr data \<Rightarrow>
                   (if is_zip q then zip_result e q data else direct_result e q data, [url])))"

section \<open>The override store\<close>

text \<open>
  A path is the list of its components below the root, and the root is a directory.
  \<open>refused\<close> says where the system refuses to create or write an entry (permissions,
  a read-only or full disk). \<open>home\<close> is the directory \<open>expanduser\<close> puts for \<open>~\<close>.
\<close>

type_synonym path = "string list"

datatype node = Dir | File string

record filesystem =
  nodes :: "path \<Rightarrow> node option"
  refused :: "path \<Rightarrow> bool"

definition node_at :: "filesystem \<Rightarrow> path \<Rightarrow> node option" where
  "node_at fs p = (if p = [] then Some Dir else nodes fs p)"

definition path_exists :: "filesystem \<Rightarrow> path \<Rightarrow> bool" where
  "path_exists fs p = (node_at fs p \<noteq> None)"

definition isdir :: "filesystem \<Rightarrow> path \<Rightarrow> bool" where
  "isdir fs p = (node_at fs p = Some Dir)"

definition mkdir :: "filesystem \<Rightarrow> path \<Rightarrow> os_error + filesystem" where
  "mkdir fs p =
     (if path_exists fs p then Inl FileExistsError
      else case node_at fs (butlast p) of
             None \<Rightarrow> Inl FileNotFoundError
           | Some (File _) \<Rightarrow> Inl NotADirectoryError
           | Some Dir \<Rightarrow>
               if refused fs p then Inl PermissionError
               else Inr (fs\<lparr>nodes := (nodes fs)(p \<mapsto> Dir)\<rparr>))"

fun makedirs :: "filesystem \<Rightarrow> path \<Rightarrow> os_error option \<times> filesystem" where
  \<comment> \<open>\<open>os.makedirs(p, exist_ok=True)\<close>: the missing parents first, a FileExistsError
      from them passed over, then \<open>mkdir\<close>, whose error is dropped when \<open>p\<close> is
      a directory. The result is the error raised, if any, and the file system left.\<close>
  "makedirs fs p =
     (case (if p \<noteq> [] \<and> \<not> path_exists fs (butlast p)
            then (case makedirs fs (butlast p) of
                    (Some err, fs') \<Rightarrow> if err = FileExistsError then (None, fs') else (Some err, fs')
                  | (None, fs') \<Rightarrow> (None, fs'))
            else (None, fs)) of
        (Some err, fs1) \<Rightarrow> (Some err, fs1)
      | (None, fs1) \<Rightarrow>
          (case mkdir fs1 p of
             Inr fs2 \<Rightarrow> (None, fs2)
           | Inl err \<Rightarrow> if isdir fs1 p then (None, fs1) else (Some err, fs1)))"

definition write_text :: "filesystem \<Rightarrow> path \<Rightarrow> string \<Rightarrow> os_error + filesystem" where
  \<comment> \<open>\<open>with open(p, "w", encoding="utf-8") as f: f.write(s)\<close>; a file holds the text
      written to it.\<close>
  "write_text fs p s =
     (if isdir fs p then Inl IsADirectoryError
      else case node_at fs (butlast p) of
             None \<Rightarrow> Inl FileNotFoundError
           | Some (File _) \<Rightarrow> Inl NotADirectoryError
           | Some Dir \<Rightarrow>
               if refused fs p then Inl PermissionError
               else Inr (fs\<lparr>nodes := (nodes fs)(p \<mapsto> File s)\<rparr>))"

definition read_text :: "filesystem \<Rightarrow> path \<Rightarrow> string option" where
  "read_text fs p = (case node_at fs p of Some (File s) \<Rightarrow> Some s | _ \<Rightarrow> None)"

definition CACHE_DIR :: "path \<Rightarrow> path" where
  "CACHE_DIR home = home @ [''.cache'', ''redweather'']"

definition OVERRIDE_FILE :: "path \<Rightarrow> path" where
  "OVERRIDE_FILE home = CACHE_DIR home @ [''zip_override'']"

definition save_override :: "path \<Rightarrow> filesystem \<Rightarrow> string \<Rightarrow> os_error option \<times> filesystem" where
  "save_override home fs raw =
     (case makedirs fs (CACHE_DIR home) of
        (Some err, fs1) \<Rightarrow> (Some err, fs1)
      | (None, fs1) \<Rightarrow>
          (case write_text fs1 (OVERRIDE_FILE home) (strip raw) of
             Inl err \<Rightarrow> (Some err, fs1)
           | Inr fs2 \<Rightarrow> (None, fs2)))"

section \<open>The notifier\<close>

text \<open>
  What running \<open>pkill -SIGUSR2 waybar\<close> comes to: the process ran and left an exit
  status (1 when no process matched, 3 on a fatal error), or \<open>subprocess.run\<close> raised.
\<close>

datatype run_outcome = Exited int | Raised py_exn

definition subprocess_run :: "bool \<Rightarrow> run_outcome \<Rightarrow> py_exn + int" where
  \<comment> \<open>\<open>subprocess.run(args, check=check)\<close>; with \<open>check\<close> a non-zero exit status
      raises.\<close>
  "subprocess_run check r =
     (case r of
        Raised x \<Rightarrow> Inl x
      | Exited rc \<Rightarrow> if check \<and> rc \<noteq> 0 then Inl (CalledProcessError rc) else Inr rc)"

definition reload_waybar :: "run_outcome \<Rightarrow> py_exn + unit" where
  "reload_waybar r =
     (case subprocess_run False r of
        Inl x \<Rightarrow> Inr ()
      | Inr rc \<Rightarrow> Inr ())"

section \<open>The dialog controller\<close>

text \<open>
  The widgets the two callbacks touch. \<open>result_var\<close> is \<open>None\<close> for the empty text
  and \<open>Some s\<close> for the arrow, a space and \<open>s\<close>; \<open>current_raw\<close> is the slot
  \<open>current_raw["value"]\<close>.
\<close>

record dialog =
  entry :: string
  status_var :: string
  result_var :: "string option"
  save_enabled :: bool
  current_raw :: "string option"
  destroyed :: bool

definition do_check :: "env \<Rightarrow> dialog \<Rightarrow> py_exn option \<times> dialog" where
  \<comment> \<open>The exception that leaves the callback, if any, and the dialog left.\<close>
  "do_check e dlg =
     (let q = strip (entry dlg);
          dlg = dlg\<lparr>result_var := None, save_enabled := False\<rparr>
      in case fst (geocode e q) of
           Inl x \<Rightarrow> (Some x, dlg)
         | Inr (info, err) \<Rightarrow>
             if err \<noteq> None \<and> err \<noteq> Some [] then (None, dlg\<lparr>status_var := the err\<rparr>)
             else (case info of
                     None \<Rightarrow> (None, dlg\<lparr>status_var := ''No result''\<rparr>)
                   | Some i \<Rightarrow>
                       (None, dlg\<lparr>result_var := Some (fmt e (label i)), status_var := ''OK'',
                                   current_raw := Some (raw_query i), save_enabled := True\<rparr>)))"

definition do_save ::
  "path \<Rightarrow> run_outcome \<Rightarrow> dialog \<times> filesystem \<Rightarrow> py_exn option \<times> dialog \<times> filesystem" where
  \<comment> \<open>The exception that leaves the callback, if any, and the dialog and the file
      system left.\<close>
  "do_save home r s =
     (let (dlg, fs) = s in
      case current_raw dlg of
        None \<Rightarrow> (None, dlg\<lparr>status_var := ''Nothing to save''\<rparr>, fs)
      | Some raw \<Rightarrow>
          if raw = [] then (None, dlg\<lparr>status_var := ''Nothing to save''\<rparr>, fs)
          else (case save_override home fs raw of
                  (Some err, fs') \<Rightarrow> (Some (OSError err), dlg, fs')
                | (None, fs') \<Rightarrow>
                    (case reload_waybar r of
                       Inl x \<Rightarrow> (Some x, dlg, fs')
                     | Inr _ \<Rightarrow> (None, dlg\<lparr>destroyed := True\<rparr>, fs'))))"

section \<open>Stubs for concrete runs\<close>

text \<open>
  A stand-in for the library functions when the program is run on a concrete input:
  the parameters joined and not escaped, one canned answer to any request.
\<close>

fun stub_urlencode :: "(string \<times> string) list \<Rightarrow> string" where
  "stub_urlencode [] = []"
| "stub_urlencode [(k, v)] = k @ ''='' @ v"
| "stub_urlencode ((k, v) # ps) = k @ ''='' @ v @ ''&'' @ stub_urlencode ps"

definition stub_env :: "string option \<Rightarrow> string + json \<Rightarrow> env" where
  "stub_env key resp =
     \<lparr>API_KEY = key, urlencode = stub_urlencode, fetch = (\<lambda>url. resp), str_of = (\<lambda>v. ''?'')\<rparr>"

text \<open>
  A file system holding the home directory \<open>/home/u\<close> and nothing below it, one where
  nothing is refused and one where everything is; a dialog after a successful check
  of \<open>90210\<close>.
\<close>

definition stub_home :: path where
  "stub_home = [''home'', ''u'']"

definition stub_fs :: "bool \<Rightarrow> filesystem" where
  "stub_fs ro =
     \<lparr>nodes = [[''home''] \<mapsto> Dir, [''home'', ''u''] \<mapsto> Dir], refused = (\<lambda>p. ro)\<rparr>"

definition stub_dialog :: dialog where
  "stub_dialog =
     \<lparr>entry = ''90210'', status_var = ''OK'', result_var = Some ''Beverly Hills, US'',
      save_enabled = True, current_raw = Some ''90210'', destroyed = False\<rparr>"

section \<open>The label in the words of the specification\<close>

text \<open>
  The label is \<open>name\<close>, then \<open>, country\<close>, then \<open>(state)\<close> on the free-form path, each
  part "when the field is present", the name replaced by a default when it is not. A
  field can be taken as present when its key is in the object, or when moreover its
  value is true in the sense of Python (not \<open>None\<close>, \<open>False\<close>, zero or empty).
\<close>

datatype reading = Key_Present | Value_Truthy

fun counts :: "reading \<Rightarrow> json \<Rightarrow> bool" where
  "counts Key_Present v = True"
| "counts Value_Truthy v = truthy v"

definition field :: "reading \<Rightarrow> (string \<times> json) list \<Rightarrow> string \<Rightarrow> json option" where
  "field rd d k =
     (case map_of d k of None \<Rightarrow> None | Some v \<Rightarrow> if counts rd v then Some v else None)"

definition spec_zip_label :: "reading \<Rightarrow> env \<Rightarrow> string \<Rightarrow> (string \<times> json) list \<Rightarrow> json" where
  "spec_zip_label rd e q d =
     (let name = (case field rd d ''name'' of None \<Rightarrow> JStr (''ZIP '' @ q) | Some n \<Rightarrow> n)
      in case field rd d ''country'' of
           None \<Rightarrow> name
         | Some c \<Rightarrow> JStr (fmt e name @ '', '' @ fmt e c))"

definition spec_direct_label :: "reading \<Rightarrow> env \<Rightarrow> string \<Rightarrow> (string \<times> json) list \<Rightarrow> json" where
  "spec_direct_label rd e q d =
     (let name = (case field rd d ''name'' of None \<Rightarrow> JStr q | Some n \<Rightarrow> n);
          named = (case field rd d ''country'' of
                     None \<Rightarrow> name
                   | Some c \<Rightarrow> JStr (fmt e name @ '', '' @ fmt e c))
      in case field rd d ''state'' of
           None \<Rightarrow> named
         | Some s \<Rightarrow> JStr (fmt e named @ '' ('' @ fmt e s @ '')''))"

definition is_number :: "json \<Rightarrow> bool" where
  \<comment> \<open>An int or a float; \<open>True\<close> and \<open>False\<close> are not numbers of JSON.\<close>
  "is_number v = (case v of JInt _ \<Rightarrow> True | JFloat _ \<Rightarrow> True | _ \<Rightarrow> False)"

section \<open>Properties of the resolver\<close>

lemmas str_defs = strip_def lstrip_def rstrip_def isspace_chr_def is_zip_def remove_chr_def
  isdigit_def isdigit_chr_def zip_param_def

text \<open>
  C5: without a credential (\<open>API_KEY\<close> unset or empty) \<open>geocode\<close> returns the
  configuration error, with a credential and an input that is empty once trimmed it
  returns the input error, and an input that is empty once trimmed never leads to a
  request; in the first two cases no URL has been requested.
\<close>

theorem geocode_fails_before_request:
  "(API_KEY e = None \<or> API_KEY e = Some [] \<longrightarrow>
      geocode e query = (Inr (None, Some ''Missing OWM_API_KEY''), [])) \<and>
   (API_KEY e \<noteq> None \<and> API_KEY e \<noteq> Some [] \<and> strip query = [] \<longrightarrow>
      geocode e query = (Inr (None, Some ''Enter a ZIP or city''), [])) \<and>
   (strip query = [] \<longrightarrow> snd (geocode e query) = [])"
  by (auto simp: geocode_def split: option.splits)

theorem geocode_fails_before_request_witness:
  "geocode (stub_env None (Inr JNull)) ''90210'' = (Inr (None, Some ''Missing OWM_API_KEY''), []) \<and>
   geocode (stub_env (Some ''key'') (Inr JNull)) '''' = (Inr (None, Some ''Enter a ZIP or city''), []) \<and>
   geocode (stub_env (Some ''key'') (Inr JNull)) ''  '' = (Inr (None, Some ''Enter a ZIP or city''), [])"
  using geocode_fails_before_request [of "stub_env None (Inr JNull)" "''90210''"]
    geocode_fails_before_request [of "stub_env (Some ''key'') (Inr JNull)" "''''"]
    geocode_fails_before_request [of "stub_env (Some ''key'') (Inr JNull)" "''  ''"]
  by (simp add: stub_env_def str_defs)

text \<open>
  C1, as stated, fails: the input \<open>,\<close> is trimmed and not empty, nothing is left of it
  once commas and spaces are removed, so every remaining character is a digit, and
  yet \<open>isdigit\<close> is false on the empty string and the request goes to the search
  endpoint.
\<close>

theorem comma_counterexample:
  "strip '','' = '','' \<and>
   list_all isdigit_chr (remove_chr (CHR '' '') (remove_chr (CHR '','') '','')) \<and>
   \<not> is_zip '','' \<and>
   snd (geocode (stub_env (Some ''key'') (Inr JNull)) '','') =
     [''https://api.openweathermap.org/geo/1.0/direct?q=,&limit=1&appid=key'']"
  by (simp add: geocode_def stub_env_def str_defs request_url_def DIRECT_ENDPOINT_def)

text \<open>
  C1, amended: with a credential and an input \<open>q\<close> that is not empty once trimmed,
  \<open>geocode\<close> takes the ZIP path (the lookup endpoint is requested and the answer is
  read as a ZIP answer) if and only if, commas and spaces removed from \<open>q\<close>, at
  least one character remains and every remaining character is a digit; otherwise it
  takes the free-form path.
\<close>

theorem geocode_classification:
  assumes "API_KEY e = Some key" and "key \<noteq> []" and "strip query = q" and "q \<noteq> []"
    and "r = remove_chr (CHR '' '') (remove_chr (CHR '','') q)"
  shows "(r \<noteq> [] \<and> list_all isdigit_chr r \<longrightarrow>
            (let url = ZIP_ENDPOINT @ urlencode e [(''zip'', zip_param q), (''appid'', key)]
             in snd (geocode e query) = [url] \<and>
                (\<forall>data. fetch e url = Inr data \<longrightarrow> fst (geocode e query) = zip_result e q data))) \<and>
         (\<not> (r \<noteq> [] \<and> list_all isdigit_chr r) \<longrightarrow>
            (let url = DIRECT_ENDPOINT @ urlencode e [(''q'', q), (''limit'', ''1''), (''appid'', key)]
             in snd (geocode e query) = [url] \<and>
                (\<forall>data. fetch e url = Inr data \<longrightarrow> fst (geocode e query) = direct_result e q data)))"
  using assms
  by (auto simp: geocode_def request_url_def is_zip_def isdigit_def Let_def split: sum.splits)

theorem geocode_classification_witness:
  "geocode (stub_env (Some ''key'') (Inr JNull)) '' 90210 '' =
     (Inr (None, Some ''No result''),
      [''https://api.openweathermap.org/geo/1.0/zip?zip=90210,US&appid=key'']) \<and>
   snd (geocode (stub_env (Some ''key'') (Inr JNull)) ''Paris,FR'') =
     [''https://api.openweathermap.org/geo/1.0/direct?q=Paris,FR&limit=1&appid=key'']"
  using geocode_classification [of "stub_env (Some ''key'') (Inr JNull)" "''key''" "'' 90210 ''"
      "''90210''" "''90210''"]
    geocode_classification [of "stub_env (Some ''key'') (Inr JNull)" "''key''" "''Paris,FR''"
      "''Paris,FR''" "''ParisFR''"]
  by (simp add: stub_env_def str_defs ZIP_ENDPOINT_def DIRECT_ENDPOINT_def zip_result_def
      prod_eq_iff)

text \<open>
  C2: on the ZIP path the \<open>zip\<close> parameter of the request is the trimmed input itself
  when it contains a comma, and the trimmed input followed by \<open>,US\<close> otherwise.
\<close>

theorem zip_path_parameter:
  assumes "API_KEY e = Some key" and "key \<noteq> []" and "strip query = q" and "q \<noteq> []"
    and "is_zip q"
  shows "snd (geocode e query) =
           [ZIP_ENDPOINT @ urlencode e
              [(''zip'', if CHR '','' \<in> set q then q else q @ '',US''), (''appid'', key)]]"
  using assms
  by (auto simp: geocode_def request_url_def zip_param_def Let_def split: sum.splits)

theorem zip_path_parameter_witness:
  "snd (geocode (stub_env (Some ''key'') (Inr JNull)) '' 90210 '') =
     [''https://api.openweathermap.org/geo/1.0/zip?zip=90210,US&appid=key''] \<and>
   snd (geocode (stub_env (Some ''key'') (Inr JNull)) ''75001,33'') =
     [''https://api.openweathermap.org/geo/1.0/zip?zip=75001,33&appid=key'']"
  using zip_path_parameter [of "stub_env (Some ''key'') (Inr JNull)" "''key''" "'' 90210 ''" "''90210''"]
    zip_path_parameter [of "stub_env (Some ''key'') (Inr JNull)" "''key''" "''75001,33''" "''75001,33''"]
  by (simp add: stub_env_def str_defs ZIP_ENDPOINT_def)

subsection \<open>The answer of the lookup endpoint\<close>

lemma zip_label_spec:
  "dict_has d ''lat'' \<Longrightarrow> dict_has d ''lon'' \<Longrightarrow>
   zip_result e q (JObj d) =
     Inr (Some \<lparr>label = spec_zip_label Value_Truthy e q d, lat = the (map_of d ''lat''),
                lon = the (map_of d ''lon''), raw_query = q\<rparr>, None)"
  by (auto simp: zip_result_def spec_zip_label_def field_def dict_get_def dict_has_def py_or_def
      Let_def split: option.splits)

text \<open>
  C3, as stated, fails: an answer whose \<open>country\<close> field is present and empty gives
  the label \<open>ZIP 90210\<close>, where the claim, a country field being present, has the
  name followed by a comma, a space and the country.
\<close>

theorem zip_label_counterexample:
  "fst (geocode (stub_env (Some ''key'')
          (Inr (JObj [(''lat'', JFloat 34.1), (''lon'', JFloat (- 118.4)), (''country'', JStr '''')])))
        ''90210'') =
     Inr (Some \<lparr>label = JStr ''ZIP 90210'', lat = JFloat 34.1, lon = JFloat (- 118.4),
                raw_query = ''90210''\<rparr>, None) \<and>
   spec_zip_label Key_Present (stub_env (Some ''key'') (Inr JNull)) ''90210''
     [(''lat'', JFloat 34.1), (''lon'', JFloat (- 118.4)), (''country'', JStr '''')] =
     JStr ''ZIP 90210, ''"
  by (simp add: geocode_def stub_env_def str_defs request_url_def zip_result_def dict_has_def
      dict_get_def py_or_def spec_zip_label_def field_def fmt_def Let_def)

text \<open>
  C3, amended: on the ZIP path, whatever the answer to the request, \<open>geocode\<close>
  succeeds exactly when the answer is an object with the keys \<open>lat\<close> and \<open>lon\<close>, and
  returns the error \<open>No result\<close> otherwise; on success the coordinates are the values
  under these keys, \<open>raw_query\<close> is the trimmed input, and the label is the name
  followed by a comma, a space and the country when the \<open>country\<close> field is present
  with a true value, the name alone otherwise, the name being \<open>ZIP\<close>, a space and
  the trimmed input unless the \<open>name\<close> field is present with a true value.
\<close>

theorem zip_path_outcome:
  assumes "API_KEY e = Some key" and "key \<noteq> []" and "strip query = q" and "q \<noteq> []"
    and "is_zip q" and "snd (geocode e query) = [url]" and "fetch e url = Inr data"
  shows "fst (geocode e query) =
    (case data of
       JObj d \<Rightarrow>
         (case (map_of d ''lat'', map_of d ''lon'') of
            (Some la, Some lo) \<Rightarrow>
              Inr (Some \<lparr>label = spec_zip_label Value_Truthy e q d, lat = la, lon = lo,
                         raw_query = q\<rparr>, None)
          | _ \<Rightarrow> Inr (None, Some ''No result''))
     | _ \<Rightarrow> Inr (None, Some ''No result''))"
proof -
  from assms have "fst (geocode e query) = zip_result e q data"
    by (auto simp: geocode_def Let_def split: sum.splits)
  moreover have "zip_result e q data =
    (case data of
       JObj d \<Rightarrow>
         (case (map_of d ''lat'', map_of d ''lon'') of
            (Some la, Some lo) \<Rightarrow>
              Inr (Some \<lparr>label = spec_zip_label Value_Truthy e q d, lat = la, lon = lo,
                         raw_query = q\<rparr>, None)
          | _ \<Rightarrow> Inr (None, Some ''No result''))
     | _ \<Rightarrow> Inr (None, Some ''No result''))"
  proof (cases data)
    case (JObj d)
    show ?thesis
    proof (cases "dict_has d ''lat'' \<and> dict_has d ''lon''")
      case True
      then show ?thesis using JObj zip_label_spec [of d e q]
        by (auto simp: dict_has_def)
    next
      case False
      then show ?thesis using JObj
        by (auto simp: zip_result_def dict_has_def split: option.splits)
    qed
  qed (simp_all add: zip_result_def)
  ultimately show ?thesis by simp
qed

theorem zip_path_outcome_witness:
  "fst (geocode (stub_env (Some ''key'')
          (Inr (JObj [(''lat'', JFloat 34.1), (''lon'', JFloat (- 118.4)),
                      (''name'', JStr ''Beverly Hills''), (''country'', JStr ''US'')])))
        ''90210'') =
     Inr (Some \<lparr>label = JStr ''Beverly Hills, US'', lat = JFloat 34.1, lon = JFloat (- 118.4),
                raw_query = ''90210''\<rparr>, None)"
  using zip_path_outcome [of
      "stub_env (Some ''key'')
          (Inr (JObj [(''lat'', JFloat 34.1), (''lon'', JFloat (- 118.4)),
                      (''name'', JStr ''Beverly Hills''), (''country'', JStr ''US'')]))"
      "''key''" "''90210''" "''90210''"
      "''https://api.openweathermap.org/geo/1.0/zip?zip=90210,US&appid=key''"
      "JObj [(''lat'', JFloat 34.1), (''lon'', JFloat (- 118.4)),
             (''name'', JStr ''Beverly Hills''), (''country'', JStr ''US'')]"]
  by (simp add: geocode_def stub_env_def str_defs request_url_def ZIP_ENDPOINT_def
      spec_zip_label_def field_def fmt_def Let_def)

subsection \<open>The answer of the search endpoint\<close>

lemma direct_label_spec:
  "direct_result e q (JArr (JObj d # rest)) =
     Inr (Some \<lparr>label = spec_direct_label Value_Truthy e q d,
                lat = (case map_of d ''lat'' of None \<Rightarrow> JNull | Some v \<Rightarrow> v),
                lon = (case map_of d ''lon'' of None \<Rightarrow> JNull | Some v \<Rightarrow> v),
                raw_query = q\<rparr>, None)"
  by (auto simp: direct_result_def spec_direct_label_def field_def dict_get_def py_or_def Let_def
      split: option.splits)

text \<open>
  C4, as stated, fails: a first match whose \<open>country\<close> field is present and empty
  gives the label \<open>Paris\<close>, where the claim, a country field being present, has the
  name followed by a comma, a space and the country.
\<close>

theorem direct_label_counterexample:
  "fst (geocode (stub_env (Some ''key'')
          (Inr (JArr [JObj [(''lat'', JFloat 48.85), (''lon'', JFloat 2.35), (''name'', JStr ''Paris''),
                            (''country'', JStr '''')]])))
        ''Paris'') =
     Inr (Some \<lparr>label = JStr ''Paris'', lat = JFloat 48.85, lon = JFloat 2.35,
                raw_query = ''Paris''\<rparr>, None) \<and>
   spec_direct_label Key_Present (stub_env (Some ''key'') (Inr JNull)) ''Paris''
     [(''lat'', JFloat 48.85), (''lon'', JFloat 2.35), (''name'', JStr ''Paris''),
      (''country'', JStr '''')] =
     JStr ''Paris, ''"
  by (simp add: geocode_def stub_env_def str_defs request_url_def direct_result_def
      dict_get_def py_or_def spec_direct_label_def field_def fmt_def Let_def)

text \<open>
  C4, amended: on the free-form path, whatever the answer to the request, \<open>geocode\<close>
  returns the error \<open>No result\<close> when the answer is not a non-empty list; when it is
  one whose first element is an object, \<open>geocode\<close> succeeds with that element,
  \<open>raw_query\<close> is the trimmed input, and the label is the name, followed by a comma,
  a space and the country when the \<open>country\<close> field is present with a true value,
  and then by a space and the state in brackets when the \<open>state\<close> field is present
  with a true value, the name being the trimmed input unless the \<open>name\<close> field is
  present with a true value.
\<close>

theorem direct_path_outcome:
  assumes "API_KEY e = Some key" and "key \<noteq> []" and "strip query = q" and "q \<noteq> []"
    and "\<not> is_zip q" and "snd (geocode e query) = [url]" and "fetch e url = Inr data"
  shows "((\<forall>first rest. data \<noteq> JArr (first # rest)) \<longrightarrow>
            fst (geocode e query) = Inr (None, Some ''No result'')) \<and>
         (\<forall>d rest. data = JArr (JObj d # rest) \<longrightarrow>
            (\<exists>la lo. fst (geocode e query) =
               Inr (Some \<lparr>label = spec_direct_label Value_Truthy e q d, lat = la, lon = lo,
                          raw_query = q\<rparr>, None)))"
proof -
  from assms have g: "fst (geocode e query) = direct_result e q data"
    by (auto simp: geocode_def Let_def split: sum.splits)
  have "(\<forall>first rest. data \<noteq> JArr (first # rest)) \<longrightarrow>
          direct_result e q data = Inr (None, Some ''No result'')"
    by (cases data) (auto simp: direct_result_def split: list.splits)
  moreover have "\<forall>d rest. data = JArr (JObj d # rest) \<longrightarrow>
            (\<exists>la lo. direct_result e q data =
               Inr (Some \<lparr>label = spec_direct_label Value_Truthy e q d, lat = la, lon = lo,
                          raw_query = q\<rparr>, None))"
    using direct_label_spec by blast
  ultimately show ?thesis using g by simp
qed

theorem direct_path_outcome_witness:
  "fst (geocode (stub_env (Some ''key'') (Inr (JArr []))) ''Paris,FR'') =
     Inr (None, Some ''No result'') \<and>
   (\<exists>la lo. fst (geocode (stub_env (Some ''key'')
          (Inr (JArr [JObj [(''lat'', JFloat 48.85), (''lon'', JFloat 2.35),
                            (''name'', JStr ''Paris''), (''country'', JStr ''FR'')]])))
        ''Paris,FR'') =
     Inr (Some \<lparr>label = JStr ''Paris, FR'', lat = la, lon = lo, raw_query = ''Paris,FR''\<rparr>, None))"
  using direct_path_outcome [of "stub_env (Some ''key'') (Inr (JArr []))"
      "''key''" "''Paris,FR''" "''Paris,FR''"
      "''https://api.openweathermap.org/geo/1.0/direct?q=Paris,FR&limit=1&appid=key''"
      "JArr []"]
    direct_path_outcome [of
      "stub_env (Some ''key'')
          (Inr (JArr [JObj [(''lat'', JFloat 48.85), (''lon'', JFloat 2.35),
                            (''name'', JStr ''Paris''), (''country'', JStr ''FR'')]]))"
      "''key''" "''Paris,FR''" "''Paris,FR''"
      "''https://api.openweathermap.org/geo/1.0/direct?q=Paris,FR&limit=1&appid=key''"
      "JArr [JObj [(''lat'', JFloat 48.85), (''lon'', JFloat 2.35),
                   (''name'', JStr ''Paris''), (''country'', JStr ''FR'')]]"]
  by (simp add: geocode_def stub_env_def str_defs request_url_def DIRECT_ENDPOINT_def
      spec_direct_label_def field_def fmt_def Let_def)

subsection \<open>The result returned\<close>

text \<open>
  C6 at the input \<open>Paris\<close>, the search endpoint answering with one match that has a
  name and no coordinates: \<open>geocode\<close> succeeds, and the latitude and the longitude
  of the result are \<open>None\<close>, which is not a number.
\<close>

theorem direct_result_without_coordinates:
  "fst (geocode (stub_env (Some ''key'') (Inr (JArr [JObj [(''name'', JStr ''Paris'')]]))) ''Paris'') =
     Inr (Some \<lparr>label = JStr ''Paris'', lat = JNull, lon = JNull, raw_query = ''Paris''\<rparr>, None) \<and>
   \<not> is_number JNull"
  by (simp add: geocode_def stub_env_def str_defs request_url_def direct_result_def
      dict_get_def py_or_def fmt_def Let_def is_number_def)

text \<open>
  C10 at the input \<open>Paris\<close>, the search endpoint answering with the list \<open>[1]\<close>:
  \<open>geocode\<close> returns neither a result nor an error message, it raises.
\<close>

theorem geocode_raises_on_non_object:
  "fst (geocode (stub_env (Some ''key'') (Inr (JArr [JInt 1]))) ''Paris'') = Inl AttributeError"
  by (simp add: geocode_def stub_env_def str_defs request_url_def direct_result_def Let_def)

text \<open>
  Whenever \<open>geocode\<close> returns, it returns exactly one of a result and an error
  message, and the \<open>raw_query\<close> of a result is the trimmed input.
\<close>

lemma zip_result_one_of:
  "zip_result e q data = Inr (info, err) \<Longrightarrow>
     (info = None) \<noteq> (err = None) \<and> (\<forall>i. info = Some i \<longrightarrow> raw_query i = q)"
  by (auto simp: zip_result_def Let_def split: json.splits if_splits)

lemma direct_result_one_of:
  "direct_result e q data = Inr (info, err) \<Longrightarrow>
     (info = None) \<noteq> (err = None) \<and> (\<forall>i. info = Some i \<longrightarrow> raw_query i = q)"
  by (auto simp: direct_result_def Let_def split: json.splits list.splits if_splits)

lemma geocode_one_of:
  assumes "fst (geocode e query) = Inr (info, err)"
  shows "(info = None) \<noteq> (err = None) \<and> (\<forall>i. info = Some i \<longrightarrow> raw_query i = strip query)"
  using assms zip_result_one_of [of e "strip query" _ info err]
    direct_result_one_of [of e "strip query" _ info err]
  by (auto simp: geocode_def Let_def split: option.splits if_splits sum.splits)

section \<open>Properties of the override store\<close>

declare makedirs.simps [simp del]

lemma mkdir_Inr:
  "mkdir fs p = Inr fs' \<Longrightarrow>
     fs' = fs\<lparr>nodes := (nodes fs)(p \<mapsto> Dir)\<rparr> \<and> p \<noteq> [] \<and> isdir fs (butlast p)"
  by (auto simp: mkdir_def path_exists_def isdir_def node_at_def split: if_splits option.splits node.splits)

lemma mkdir_FileExists: "mkdir fs p = Inl FileExistsError \<Longrightarrow> path_exists fs p"
  by (auto simp: mkdir_def split: if_splits option.splits node.splits)

lemma butlast_neq: "p \<noteq> [] \<Longrightarrow> butlast p \<noteq> p"
  by (metis length_butlast diff_less length_greater_0_conv less_irrefl zero_less_one)

lemma isdir_update_Dir: "isdir (fs\<lparr>nodes := (nodes fs)(p \<mapsto> Dir)\<rparr>) p"
  by (simp add: isdir_def node_at_def)

lemma exists_update_other:
  "x \<noteq> p \<Longrightarrow> path_exists (fs\<lparr>nodes := (nodes fs)(p \<mapsto> n)\<rparr>) x = path_exists fs x"
  by (simp add: path_exists_def node_at_def)

lemma isdir_update_other:
  "x \<noteq> p \<Longrightarrow> isdir (fs\<lparr>nodes := (nodes fs)(p \<mapsto> n)\<rparr>) x = isdir fs x"
  by (simp add: isdir_def node_at_def)

lemma isdir_exists: "isdir fs p \<Longrightarrow> path_exists fs p"
  by (simp add: isdir_def path_exists_def)

lemma makedirs_None_isdir: "makedirs fs p = (None, fs') \<Longrightarrow> isdir fs' p"
  apply (subst (asm) makedirs.simps)
  apply (auto split: if_splits prod.splits option.splits sum.splits dest!: mkdir_Inr simp: isdir_update_Dir)
  done

lemma makedirs_FileExists: "makedirs fs p = (Some FileExistsError, fs') \<Longrightarrow> path_exists fs' p"
  apply (subst (asm) makedirs.simps)
  apply (auto split: if_splits prod.splits option.splits sum.splits dest: mkdir_FileExists)
  done

lemma makedirs_None_parent:
  assumes "makedirs fs p = (None, fs')" and "p \<noteq> []"
  shows "path_exists fs' (butlast p)"
proof -
  define ph where "ph = (if p \<noteq> [] \<and> \<not> path_exists fs (butlast p)
            then (case makedirs fs (butlast p) of
                    (Some err, fs') \<Rightarrow> if err = FileExistsError then (None, fs') else (Some err, fs')
                  | (None, fs') \<Rightarrow> (None, fs'))
            else (None, fs))"
  have m: "makedirs fs p = (case ph of
        (Some err, fs1) \<Rightarrow> (Some err, fs1)
      | (None, fs1) \<Rightarrow>
          (case mkdir fs1 p of
             Inr fs2 \<Rightarrow> (None, fs2)
           | Inl err \<Rightarrow> if isdir fs1 p then (None, fs1) else (Some err, fs1)))"
    unfolding ph_def by (subst makedirs.simps) simp
  obtain fs1 where ph: "ph = (None, fs1)"
    using assms(1) m by (cases ph) (auto split: option.splits)
  have par: "path_exists fs1 (butlast p)"
  proof (cases "path_exists fs (butlast p)")
    case True
    then show ?thesis using ph by (simp add: ph_def)
  next
    case False
    then show ?thesis using ph assms(2)
      by (auto simp: ph_def split: prod.splits option.splits if_splits
          dest: makedirs_FileExists makedirs_None_isdir isdir_exists)
  qed
  show ?thesis
  proof (cases "mkdir fs1 p")
    case (Inl err)
    then show ?thesis using assms(1) m ph par by (auto split: if_splits)
  next
    case (Inr fs2)
    then have "fs' = fs2" using assms(1) m ph by simp
    then show ?thesis using mkdir_Inr [OF Inr] par butlast_neq [OF assms(2)]
      by (simp add: exists_update_other)
  qed
qed

lemma makedirs_existing:
  "isdir fs p \<Longrightarrow> p = [] \<or> path_exists fs (butlast p) \<Longrightarrow> makedirs fs p = (None, fs)"
  apply (subst makedirs.simps)
  apply (auto simp: mkdir_def isdir_def path_exists_def)
  done

lemma makedirs_idem: "makedirs fs p = (None, fs') \<Longrightarrow> makedirs fs' p = (None, fs')"
  using makedirs_existing [of fs' p] makedirs_None_isdir [of fs p fs'] makedirs_None_parent [of fs p fs']
  by blast

lemma makedirs_refused: "makedirs fs p = (err, fs') \<Longrightarrow> refused fs' = refused fs"
proof (induction fs p arbitrary: err fs' rule: makedirs.induct)
  case (1 fs p)
  have ih: "\<And>e f. makedirs fs (butlast p) = (e, f) \<Longrightarrow> p \<noteq> [] \<Longrightarrow>
      \<not> path_exists fs (butlast p) \<Longrightarrow> refused f = refused fs"
    using "1.IH" by blast
  show ?case using "1.prems"
    apply (subst (asm) makedirs.simps)
    apply (auto split: if_splits prod.splits option.splits sum.splits dest!: mkdir_Inr dest: ih)
    done
qed

lemma makedirs_frame:
  "makedirs fs p = (err, fs') \<Longrightarrow> length p < length x \<Longrightarrow> nodes fs' x = nodes fs x"
proof (induction fs p arbitrary: err fs' rule: makedirs.induct)
  case (1 fs p)
  have ih: "\<And>e f. makedirs fs (butlast p) = (e, f) \<Longrightarrow> p \<noteq> [] \<Longrightarrow>
      \<not> path_exists fs (butlast p) \<Longrightarrow> nodes f x = nodes fs x"
    using "1.IH" "1.prems"(2) by (metis length_butlast less_imp_diff_less)
  show ?case using "1.prems"
    apply (subst (asm) makedirs.simps)
    apply (auto split: if_splits prod.splits option.splits sum.splits dest!: mkdir_Inr dest: ih)
    done
qed

lemma makedirs_child:
  assumes "isdir fs p" and "\<not> refused fs (p @ [c])"
    and "\<not> path_exists fs (p @ [c]) \<or> isdir fs (p @ [c])"
  shows "\<exists>fs'. makedirs fs (p @ [c]) = (None, fs')"
  using assms
  apply (subst makedirs.simps)
  apply (auto simp: mkdir_def isdir_def path_exists_def split: option.splits node.splits)
  done

lemma makedirs_step:
  assumes "p \<noteq> []" and "\<not> path_exists fs (butlast p)"
    and "makedirs fs (butlast p) = (None, fsp)"
  shows "makedirs fs p = makedirs fsp p"
proof -
  let ?final = "case mkdir fsp p of
             Inr fs2 \<Rightarrow> (None, fs2)
           | Inl err \<Rightarrow> if isdir fsp p then (None, fsp) else (Some err, fsp)"
  have "path_exists fsp (butlast p)"
    using makedirs_None_isdir [OF assms(3)] by (rule isdir_exists)
  then have "makedirs fsp p = ?final"
    by (subst makedirs.simps) simp
  moreover have "makedirs fs p = ?final"
    using assms by (subst makedirs.simps) simp
  ultimately show ?thesis by simp
qed

lemma write_text_Inr:
  "write_text fs p s = Inr fs' \<Longrightarrow>
     fs' = fs\<lparr>nodes := (nodes fs)(p \<mapsto> File s)\<rparr> \<and> isdir fs (butlast p) \<and> \<not> refused fs p \<and>
     p \<noteq> []"
  by (auto simp: write_text_def isdir_def node_at_def split: if_splits option.splits node.splits)

lemma read_text_written:
  "p \<noteq> [] \<Longrightarrow> read_text (fs\<lparr>nodes := (nodes fs)(p \<mapsto> File s)\<rparr>) p = Some s"
  by (simp add: read_text_def node_at_def)

lemma write_text_over_file:
  assumes "p \<noteq> []" and "isdir fs (butlast p)" and "\<not> refused fs p" and "\<not> isdir fs p"
  shows "write_text fs p s = Inr (fs\<lparr>nodes := (nodes fs)(p \<mapsto> File s)\<rparr>)"
  using assms by (auto simp: write_text_def isdir_def)

lemma override_paths:
  "butlast (OVERRIDE_FILE home) = CACHE_DIR home" "OVERRIDE_FILE home \<noteq> []"
  "CACHE_DIR home \<noteq> []" "CACHE_DIR home \<noteq> OVERRIDE_FILE home"
  "butlast (CACHE_DIR home) \<noteq> OVERRIDE_FILE home"
  by (simp_all add: OVERRIDE_FILE_def CACHE_DIR_def butlast_append)

lemma save_override_None:
  assumes "save_override home fs q = (None, fs1)"
  obtains fsm where "makedirs fs (CACHE_DIR home) = (None, fsm)"
    and "write_text fsm (OVERRIDE_FILE home) (strip q) = Inr fs1"
  using assms
  by (auto simp: save_override_def split: prod.splits option.splits sum.splits)

lemma save_override_reads_back:
  assumes "save_override home fs q = (None, fs1)"
  shows "read_text fs1 (OVERRIDE_FILE home) = Some (strip q)"
proof -
  from assms obtain fsm where "write_text fsm (OVERRIDE_FILE home) (strip q) = Inr fs1"
    by (rule save_override_None)
  then have "fs1 = fsm\<lparr>nodes := (nodes fsm)(OVERRIDE_FILE home \<mapsto> File (strip q))\<rparr>"
    by (simp add: write_text_Inr)
  then show ?thesis
    by (simp add: read_text_written override_paths)
qed

text \<open>
  The save succeeds on every file system that refuses nothing and where the home
  directory exists, \<open>.cache\<close> and the cache directory are missing or are
  directories, and the override file is not a directory.
\<close>

lemma save_override_succeeds:
  assumes "isdir fs home" and "\<forall>p. \<not> refused fs p"
    and "\<not> path_exists fs (home @ [''.cache'']) \<or> isdir fs (home @ [''.cache''])"
    and "\<not> path_exists fs (CACHE_DIR home) \<or> isdir fs (CACHE_DIR home)"
    and "\<not> isdir fs (OVERRIDE_FILE home)"
  shows "\<exists>fs1. save_override home fs q = (None, fs1)"
proof -
  let ?P = "home @ [''.cache'']" and ?C = "CACHE_DIR home" and ?F = "OVERRIDE_FILE home"
  have C: "?C = ?P @ [''redweather'']" by (simp add: CACHE_DIR_def)
  have bl: "butlast ?C = ?P" by (simp add: CACHE_DIR_def butlast_append)
  have "\<exists>fsm. makedirs fs ?C = (None, fsm)"
  proof (cases "path_exists fs ?P")
    case True
    then have "isdir fs ?P" using assms(3) by simp
    then show ?thesis
      unfolding C using assms(2,4) by (intro makedirs_child) (simp_all add: C)
  next
    case False
    obtain fsp where p: "makedirs fs ?P = (None, fsp)"
      using makedirs_child [of fs home "''.cache''"] assms False by blast
    have rp: "refused fsp = refused fs" using makedirs_refused [OF p] .
    have fp: "nodes fsp ?C = nodes fs ?C"
      using makedirs_frame [OF p, of ?C] by (simp add: CACHE_DIR_def)
    have "\<exists>fsm. makedirs fsp ?C = (None, fsm)"
      unfolding C
      apply (rule makedirs_child)
      using makedirs_None_isdir [OF p] rp assms fp
        apply (simp_all add: isdir_def path_exists_def node_at_def C)
      done
    moreover have "makedirs fs ?C = makedirs fsp ?C"
      using False p by (intro makedirs_step) (simp_all add: bl override_paths)
    ultimately show ?thesis by simp
  qed
  then obtain fsm where m: "makedirs fs ?C = (None, fsm)" ..
  have "nodes fsm ?F = nodes fs ?F"
    using makedirs_frame [OF m, of ?F] by (simp add: OVERRIDE_FILE_def)
  then have nd: "\<not> isdir fsm ?F"
    using assms(5) by (simp add: isdir_def node_at_def override_paths)
  have "refused fsm = refused fs" using makedirs_refused [OF m] .
  then have nr: "\<not> refused fsm ?F" using assms(2) by simp
  have "write_text fsm ?F (strip q) = Inr (fsm\<lparr>nodes := (nodes fsm)(?F \<mapsto> File (strip q))\<rparr>)"
    using makedirs_None_isdir [OF m] nd nr
    by (intro write_text_over_file) (simp_all add: override_paths)
  then show ?thesis using m by (simp add: save_override_def)
qed

text \<open>
  C9: when \<open>save_override\<close> succeeds, the override file reads back as the trimmed
  text of the query and the cache directory exists; a second call on the file system
  left then succeeds as well, the directory being there already, and the file reads
  back as the trimmed text of the second query alone.
\<close>

theorem save_override_roundtrip:
  assumes "save_override home fs q = (None, fs1)"
  shows "read_text fs1 (OVERRIDE_FILE home) = Some (strip q) \<and>
         isdir fs1 (CACHE_DIR home) \<and>
         (\<forall>q2. \<exists>fs2. save_override home fs1 q2 = (None, fs2) \<and>
                     read_text fs2 (OVERRIDE_FILE home) = Some (strip q2) \<and>
                     isdir fs2 (CACHE_DIR home))"
proof -
  let ?C = "CACHE_DIR home" and ?F = "OVERRIDE_FILE home"
  from assms obtain fsm where m: "makedirs fs ?C = (None, fsm)"
    and w: "write_text fsm ?F (strip q) = Inr fs1"
    by (rule save_override_None)
  note wf = write_text_Inr [OF w]
  have fs1: "fs1 = fsm\<lparr>nodes := (nodes fsm)(?F \<mapsto> File (strip q))\<rparr>" using wf by simp
  have r1: "read_text fs1 ?F = Some (strip q)"
    unfolding fs1 by (rule read_text_written) (rule override_paths)
  have d1: "isdir fs1 ?C"
    unfolding fs1 using makedirs_None_isdir [OF m] by (simp add: isdir_update_other override_paths)
  have p1: "path_exists fs1 (butlast ?C)"
    unfolding fs1 using makedirs_None_parent [OF m] by (simp add: exists_update_other override_paths)
  have m1: "makedirs fs1 ?C = (None, fs1)"
    using d1 p1 by (rule_tac makedirs_existing) simp_all
  have nf: "\<not> isdir fs1 ?F"
    unfolding fs1 by (simp add: isdir_def node_at_def override_paths)
  have nr: "\<not> refused fs1 ?F" unfolding fs1 using wf by simp
  have again: "\<exists>fs2. save_override home fs1 q2 = (None, fs2) \<and>
                     read_text fs2 ?F = Some (strip q2) \<and> isdir fs2 ?C" for q2
  proof -
    have "write_text fs1 ?F (strip q2) = Inr (fs1\<lparr>nodes := (nodes fs1)(?F \<mapsto> File (strip q2))\<rparr>)"
      using d1 nf nr by (intro write_text_over_file) (simp_all add: override_paths)
    then have "save_override home fs1 q2 = (None, fs1\<lparr>nodes := (nodes fs1)(?F \<mapsto> File (strip q2))\<rparr>)"
      using m1 by (simp add: save_override_def)
    moreover have "read_text (fs1\<lparr>nodes := (nodes fs1)(?F \<mapsto> File (strip q2))\<rparr>) ?F = Some (strip q2)"
      by (rule read_text_written) (rule override_paths)
    moreover have "isdir (fs1\<lparr>nodes := (nodes fs1)(?F \<mapsto> File (strip q2))\<rparr>) ?C"
      using d1 by (simp add: isdir_update_other override_paths)
    ultimately show ?thesis by blast
  qed
  show ?thesis using r1 d1 again by blast
qed

lemma stub_makedirs:
  "makedirs (stub_fs False) (CACHE_DIR stub_home) =
     (None, (stub_fs False)\<lparr>nodes := (nodes (stub_fs False))
        ([''home'', ''u'', ''.cache''] \<mapsto> Dir, [''home'', ''u'', ''.cache'', ''redweather''] \<mapsto> Dir)\<rparr>)"
  apply (simp add: CACHE_DIR_def stub_home_def)
  apply (subst makedirs.simps)
  apply (subst makedirs.simps)
  apply (simp add: stub_fs_def path_exists_def node_at_def mkdir_def isdir_def)
  done

lemma stub_save:
  "save_override stub_home (stub_fs False) q =
     (None, (stub_fs False)\<lparr>nodes := (nodes (stub_fs False))
        ([''home'', ''u'', ''.cache''] \<mapsto> Dir, [''home'', ''u'', ''.cache'', ''redweather''] \<mapsto> Dir,
         [''home'', ''u'', ''.cache'', ''redweather'', ''zip_override''] \<mapsto> File (strip q))\<rparr>)"
  apply (simp add: save_override_def stub_makedirs)
  apply (simp add: write_text_def OVERRIDE_FILE_def CACHE_DIR_def stub_home_def stub_fs_def
      isdir_def node_at_def)
  done

theorem save_override_roundtrip_witness:
  "fst (save_override stub_home (stub_fs False) '' 90210 '') = None \<and>
   \<not> path_exists (stub_fs False) (CACHE_DIR stub_home) \<and>
   isdir (snd (save_override stub_home (stub_fs False) '' 90210 '')) (CACHE_DIR stub_home) \<and>
   read_text (snd (save_override stub_home (stub_fs False) '' 90210 '')) (OVERRIDE_FILE stub_home) =
     Some ''90210'' \<and>
   (\<exists>fs2. save_override stub_home (snd (save_override stub_home (stub_fs False) '' 90210 ''))
            ''10001'' = (None, fs2) \<and>
          read_text fs2 (OVERRIDE_FILE stub_home) = Some ''10001'')"
proof -
  obtain fs1 where s: "save_override stub_home (stub_fs False) '' 90210 '' = (None, fs1)"
    using stub_save by blast
  have np: "\<not> path_exists (stub_fs False) (CACHE_DIR stub_home)"
    by (simp add: path_exists_def node_at_def CACHE_DIR_def stub_home_def stub_fs_def)
  have s1: "strip '' 90210 '' = ''90210''" and s2: "strip ''10001'' = ''10001''"
    by (simp_all add: str_defs)
  note r = save_override_roundtrip [OF s]
  have a: "read_text fs1 (OVERRIDE_FILE stub_home) = Some ''90210''"
    using r s1 by simp
  have b: "isdir fs1 (CACHE_DIR stub_home)"
    using r by simp
  have "\<exists>fs2. save_override stub_home fs1 ''10001'' = (None, fs2) \<and>
      read_text fs2 (OVERRIDE_FILE stub_home) = Some (strip ''10001'') \<and>
      isdir fs2 (CACHE_DIR stub_home)"
    using r [THEN conjunct2, THEN conjunct2] by (rule spec)
  then obtain fs2 where c: "save_override stub_home fs1 ''10001'' = (None, fs2)"
    and d: "read_text fs2 (OVERRIDE_FILE stub_home) = Some (strip ''10001'')"
    by blast
  have e: "\<exists>fs2. save_override stub_home fs1 ''10001'' = (None, fs2) \<and>
      read_text fs2 (OVERRIDE_FILE stub_home) = Some ''10001''"
    using c d s2 by (intro exI [of _ fs2]) simp
  show ?thesis
    unfolding s fst_conv snd_conv using np a b e by simp
qed

subsection \<open>Trimming twice\<close>

lemma rstrip_prefix: "\<exists>w. s = rstrip s @ w"
proof -
  have "rev (takeWhile isspace_chr (rev s) @ dropWhile isspace_chr (rev s)) = rev (rev s)"
    by (simp only: takeWhile_dropWhile_id)
  then have "s = rstrip s @ rev (takeWhile isspace_chr (rev s))"
    by (simp only: rev_append rev_rev_ident rstrip_def)
  then show ?thesis ..
qed

lemma lstrip_head: "lstrip s \<noteq> [] \<Longrightarrow> \<not> isspace_chr (hd (lstrip s))"
  unfolding lstrip_def by (rule hd_dropWhile)

lemma lstrip_strip: "lstrip (strip s) = strip s"
proof (cases "strip s = []")
  case True
  then show ?thesis by (simp add: lstrip_def)
next
  case False
  obtain w where w: "lstrip s = strip s @ w"
    using rstrip_prefix [of "lstrip s"] by (auto simp: strip_def)
  with False have "hd (strip s) = hd (lstrip s)" by simp
  moreover have "lstrip s \<noteq> []" using w False by auto
  ultimately have "\<not> isspace_chr (hd (strip s))" using lstrip_head by simp
  with False show ?thesis
    by (cases "strip s") (simp_all add: lstrip_def)
qed

lemma rstrip_rstrip: "rstrip (rstrip s) = rstrip s"
  by (simp add: rstrip_def)

lemma strip_strip: "strip (strip s) = strip s"
proof -
  have "strip (strip s) = rstrip (strip s)" by (simp add: strip_def [of "strip s"] lstrip_strip)
  also have "\<dots> = strip s" by (simp add: strip_def rstrip_rstrip)
  finally show ?thesis .
qed

text \<open>
  A query that \<open>geocode\<close> has resolved is trimmed already: saved, it reads back as
  it is.
\<close>

lemma resolved_query_roundtrip:
  assumes "fst (geocode e query) = Inr (Some i, err)"
    and "save_override home fs (raw_query i) = (None, fs1)"
  shows "read_text fs1 (OVERRIDE_FILE home) = Some (raw_query i)"
  using geocode_one_of [OF assms(1)] save_override_reads_back [OF assms(2)]
  by (simp add: strip_strip)

section \<open>Properties of the notifier and of the dialog\<close>

text \<open>
  C8: whatever the attempt to signal comes to, an exit status of any value or an
  exception raised by \<open>subprocess.run\<close>, \<open>reload_waybar\<close> returns and raises nothing;
  and a save whose write has succeeded ends with no exception, the dialog closed and
  the file system as the write left it, whatever the attempt to signal came to.
\<close>

theorem notifier_failure_swallowed:
  "reload_waybar r = Inr () \<and>
   (current_raw dlg = Some raw \<and> raw \<noteq> [] \<and> save_override home fs raw = (None, fs') \<longrightarrow>
      do_save home r (dlg, fs) = (None, dlg\<lparr>destroyed := True\<rparr>, fs'))"
  by (auto simp: reload_waybar_def do_save_def split: sum.splits)

theorem notifier_failure_swallowed_witness:
  "reload_waybar (Exited 1) = Inr () \<and>
   reload_waybar (Raised (OSError FileNotFoundError)) = Inr () \<and>
   (\<exists>fs1. do_save stub_home (Raised (OSError FileNotFoundError)) (stub_dialog, stub_fs False) =
            (None, stub_dialog\<lparr>destroyed := True\<rparr>, fs1) \<and>
          read_text fs1 (OVERRIDE_FILE stub_home) = Some ''90210'')"
proof -
  obtain fs1 where s: "save_override stub_home (stub_fs False) ''90210'' = (None, fs1)"
    using stub_save by blast
  have c: "current_raw stub_dialog = Some ''90210''" and n: "''90210'' \<noteq> []"
    by (simp_all add: stub_dialog_def)
  have t: "strip ''90210'' = ''90210''"
    by (simp add: str_defs)
  have a: "do_save stub_home (Raised (OSError FileNotFoundError)) (stub_dialog, stub_fs False) =
            (None, stub_dialog\<lparr>destroyed := True\<rparr>, fs1)"
    using notifier_failure_swallowed [of "Raised (OSError FileNotFoundError)" stub_dialog
        "''90210''" stub_home "stub_fs False" fs1] c n s
    by simp
  have b: "read_text fs1 (OVERRIDE_FILE stub_home) = Some ''90210''"
    using save_override_reads_back [OF s] t by simp
  show ?thesis
    using notifier_failure_swallowed [of "Exited 1"]
      notifier_failure_swallowed [of "Raised (OSError FileNotFoundError)"] a b
    by blast
qed

text \<open>
  C7 at a dialog that holds the checked query \<open>90210\<close>, on a file system that refuses
  every creation: \<open>Save\<close> ends with the \<open>OSError\<close> of \<open>save_override\<close> leaving the
  callback; the status text is not changed, the dialog is not closed.
\<close>

theorem do_save_propagates_oserror:
  "do_save stub_home (Exited 0) (stub_dialog, stub_fs True) =
     (Some (OSError PermissionError), stub_dialog, stub_fs True)"
  apply (simp add: do_save_def stub_dialog_def save_override_def CACHE_DIR_def stub_home_def)
  apply (subst makedirs.simps)
  apply (subst makedirs.simps)
  apply (simp add: stub_fs_def path_exists_def node_at_def mkdir_def isdir_def)
  done

text \<open>
  In general an error of \<open>save_override\<close> leaves \<open>do_save\<close> as an exception, and an
  error that \<open>geocode\<close> returns is shown by \<open>do_check\<close> as the status text.
\<close>

lemma do_save_raises:
  "current_raw dlg = Some raw \<Longrightarrow> raw \<noteq> [] \<Longrightarrow> save_override home fs raw = (Some err, fs') \<Longrightarrow>
     do_save home r (dlg, fs) = (Some (OSError err), dlg, fs')"
  by (simp add: do_save_def)

lemma do_check_renders_error:
  "fst (geocode e (strip (entry dlg))) = Inr (None, Some msg) \<Longrightarrow> msg \<noteq> [] \<Longrightarrow>
     do_check e dlg = (None, dlg\<lparr>result_var := None, save_enabled := False, status_var := msg\<rparr>)"
  by (simp add: do_check_def Let_def)

end
